theory Spec2Isabelle
  imports Main
begin

section \<open>Values of the host language\<close>

text \<open>
  A string is a list of characters; \<open>length\<close> is the source's \<open>.length\<close> and
  \<open>drop n\<close> is \<open>.slice(n)\<close> for \<open>n \<ge> 0\<close> (a start past the end gives the empty
  string in both).
\<close>

datatype error = RangeError

text \<open>
  The source's \<open>number\<close>. A Number is \<open>NaN\<close>, plus or minus \<open>Infinity\<close>, or finite;
  a finite Number is given by the decimal that \<open>Number.prototype.toString\<close> prints for
  it: \<open>Decimal neg s e\<close> is \<open>s \<times> 10\<^sup>e\<close>, negated when \<open>neg\<close> holds (so 10 is
  \<open>Decimal False 10 0\<close>, 1.5 is \<open>Decimal False 15 (- 1)\<close>, and \<open>Decimal neg 0 e\<close> is
  \<open>+0\<close> or \<open>-0\<close>). Every Number is one of these values; the decimals of more digits
  than a double holds are values of the type as well, and what is proved of every value
  of the type holds of every Number.
\<close>

datatype number = Decimal bool nat int | NaN | Infinity bool

definition digit_char :: "nat \<Rightarrow> char" where
  "digit_char d = ''0123456789'' ! (d mod 10)"

function string_of_nat :: "nat \<Rightarrow> string" where
  "string_of_nat n =
     (if n < 10 then [digit_char n] else string_of_nat (n div 10) @ [digit_char (n mod 10)])"
  by pat_completeness auto
termination
  by (relation "measure (\<lambda>n. n)") auto

declare string_of_nat.simps [simp del]

text \<open>
  \<open>Number.prototype.toString\<close> (ECMAScript, \<open>Number::toString\<close> with radix 10). For a
  finite non-zero Number it takes the digits \<open>ds\<close> of the shortest \<open>s\<close> (no trailing
  zero: \<open>strip_zeros\<close>), their count \<open>k\<close> and the \<open>n\<close> with value \<open>0.ds \<times> 10\<^sup>n\<close>. For
  \<open>n\<close> from -5 to 21 the digits are written out, with zeros appended (\<open>k \<le> n\<close>), a
  point inside (\<open>0 < n < k\<close>) or \<open>0.\<close> and zeros before them (\<open>n \<le> 0\<close>); any other
  \<open>n\<close> gives the exponent notation \<open>d.ddde+x\<close> or \<open>d.ddde-x\<close> with \<open>x = |n - 1|\<close>.
\<close>

function strip_zeros :: "nat \<Rightarrow> int \<Rightarrow> nat \<times> int" where
  "strip_zeros s e =
     (if s \<noteq> 0 \<and> s mod 10 = 0 then strip_zeros (s div 10) (e + 1) else (s, e))"
  by pat_completeness auto
termination
  by (relation "measure (\<lambda>(s, e). s)") auto

declare strip_zeros.simps [simp del]

definition digits_toString :: "string \<Rightarrow> int \<Rightarrow> string" where
  "digits_toString ds n =
     (let k = int (length ds) in
      if - 5 \<le> n \<and> n \<le> 21 then
        (if n \<ge> k then ds @ replicate (nat (n - k)) (CHR ''0'')
         else if n > 0 then take (nat n) ds @ ''.'' @ drop (nat n) ds
         else ''0.'' @ replicate (nat (- n)) (CHR ''0'') @ ds)
      else
        (if k = 1 then ds else take 1 ds @ ''.'' @ drop 1 ds)
        @ ''e'' @ (if n < 0 then ''-'' else ''+'') @ string_of_nat (nat \<bar>n - 1\<bar>))"

fun number_toString :: "number \<Rightarrow> string" where
  "number_toString NaN = ''NaN''"
| "number_toString (Infinity neg) = (if neg then ''-'' else []) @ ''Infinity''"
| "number_toString (Decimal neg s e) =
     (if s = 0 then ''0''
      else (if neg then ''-'' else []) @
        (case strip_zeros s e of
           (s', e') \<Rightarrow>
             digits_toString (string_of_nat s') (e' + int (length (string_of_nat s')))))"

fun bool_toString :: "bool \<Rightarrow> string" where
  "bool_toString True = ''true''"
| "bool_toString False = ''false''"

text \<open>
  \<open>!!secondValue\<close> for an optional number: \<open>undefined\<close>, \<open>+0\<close>, \<open>-0\<close> and \<open>NaN\<close> are
  falsy, every other Number is truthy.
\<close>

fun truthy :: "number option \<Rightarrow> bool" where
  "truthy None = False"
| "truthy (Some (Decimal neg s e)) = (s \<noteq> 0)"
| "truthy (Some NaN) = False"
| "truthy (Some (Infinity neg)) = True"

text \<open>
  A \<open>Date\<close> is given by the UTC fields of its time value (what \<open>getUTCFullYear()\<close>,
  \<open>getUTCMonth() + 1\<close>, \<open>getUTCDate()\<close>, ... return), or is the invalid date.
  \<open>toISOString()\<close> throws \<open>RangeError\<close> on the invalid date; it writes a year
  from 0 to 9999 with four digits and any other year with a sign and six digits.
\<close>

record utc_fields =
  year :: int
  month :: nat
  day :: nat
  hours :: nat
  minutes :: nat
  seconds :: nat
  milliseconds :: nat

datatype Date = Invalid_Date | Date_UTC utc_fields

definition pad :: "nat \<Rightarrow> nat \<Rightarrow> string" where
  "pad w k = replicate (w - length (string_of_nat k)) (CHR ''0'') @ string_of_nat k"

definition year_string :: "int \<Rightarrow> string" where
  "year_string y =
     (if 0 \<le> y \<and> y \<le> 9999 then pad 4 (nat y)
      else (if y < 0 then ''-'' else ''+'') @ pad 6 (nat \<bar>y\<bar>))"

fun toISOString :: "Date \<Rightarrow> error + string" where
  "toISOString Invalid_Date = Inl RangeError"
| "toISOString (Date_UTC t) =
     Inr (year_string (year t) @ ''-'' @ pad 2 (month t) @ ''-'' @ pad 2 (day t) @ ''T''
          @ pad 2 (hours t) @ '':'' @ pad 2 (minutes t) @ '':'' @ pad 2 (seconds t)
          @ ''.'' @ pad 3 (milliseconds t) @ ''Z'')"

section \<open>Operators (spdrParam.ts)\<close>

datatype Operator = Operator_exists | Operator_equals | Operator_sort

fun Operator_str :: "Operator \<Rightarrow> string" where
  "Operator_str Operator_exists = ''exists''"
| "Operator_str Operator_equals = ''=''"
| "Operator_str Operator_sort = ''order''"

datatype OrderOperator = OrderOperator_asc | OrderOperator_desc

fun OrderOperator_str :: "OrderOperator \<Rightarrow> string" where
  "OrderOperator_str OrderOperator_asc = ''asc''"
| "OrderOperator_str OrderOperator_desc = ''desc''"

datatype RangeOperator =
  RangeOperator_lt | RangeOperator_lte | RangeOperator_gt | RangeOperator_gte
  | RangeOperator_between

fun RangeOperator_str :: "RangeOperator \<Rightarrow> string" where
  "RangeOperator_str RangeOperator_lt = ''lt''"
| "RangeOperator_str RangeOperator_lte = ''lte''"
| "RangeOperator_str RangeOperator_gt = ''gt''"
| "RangeOperator_str RangeOperator_gte = ''gte''"
| "RangeOperator_str RangeOperator_between = ''between''"

datatype DateOperator =
  DateOperator_after | DateOperator_before | DateOperator_strictlyAfter
  | DateOperator_strictlyBefore

fun DateOperator_str :: "DateOperator \<Rightarrow> string" where
  "DateOperator_str DateOperator_after = ''after''"
| "DateOperator_str DateOperator_before = ''before''"
| "DateOperator_str DateOperator_strictlyAfter = ''strictly_after''"
| "DateOperator_str DateOperator_strictlyBefore = ''strictly_before''"

definition PageOperator_pagination :: string where
  "PageOperator_pagination = ''pagination''"

definition PageOperator_page :: string where
  "PageOperator_page = ''page''"

definition PageOperator_itemsPerPage :: string where
  "PageOperator_itemsPerPage = ''itemsPerPage''"

section \<open>Parameters (spdrParam.ts)\<close>

text \<open>
  \<open>SpdrParam\<close>: the fields \<open>_property\<close>, \<open>_operator\<close>, \<open>_value\<close> and \<open>_query\<close> behind
  the getters \<open>property\<close>, \<open>operator\<close>, \<open>value\<close> and \<open>query\<close>. The last two are named
  \<open>pvalue\<close> and \<open>pquery\<close> here (\<open>query\<close> is the builder's getter below).
\<close>

datatype param_operator =
  Base Operator | Range RangeOperator | DateOp DateOperator

datatype param_value =
  VBool bool | VNumber number | VStrings "string list" | VDate Date | VOrder OrderOperator

record SpdrParam =
  property :: string
  operator :: param_operator
  pvalue :: param_value
  pquery :: string

definition SpdrExists :: "string \<Rightarrow> bool \<Rightarrow> SpdrParam" where
  "SpdrExists pname v =
     \<lparr>property = pname, operator = Base Operator_exists, pvalue = VBool v,
      pquery = Operator_str Operator_exists @ ''['' @ pname @ '']='' @ bool_toString v\<rparr>"

text \<open>
  The \<open>forEach\<close> of \<open>SpdrSearch\<close>: \<open>n\<close> is \<open>values.length\<close>, \<open>i\<close> the index of the
  next element, \<open>q\<close> the token built so far.
\<close>

fun search_forEach :: "string \<Rightarrow> string \<Rightarrow> nat \<Rightarrow> nat \<Rightarrow> string list \<Rightarrow> string \<Rightarrow> string" where
  "search_forEach pname opnd n i [] q = q"
| "search_forEach pname opnd n i (v # vs) q =
     search_forEach pname opnd n (i + 1) vs
       (q @ (if int i = int n - 1
             then pname @ ''[]'' @ Operator_str Operator_equals @ v
             else pname @ ''[]'' @ Operator_str Operator_equals @ v @ opnd))"

definition SpdrSearch :: "string \<Rightarrow> string list \<Rightarrow> string \<Rightarrow> SpdrParam" where
  "SpdrSearch pname vals opnd =
     \<lparr>property = pname, operator = Base Operator_equals, pvalue = VStrings vals,
      pquery = (if length vals = 1 then pname @ Operator_str Operator_equals @ vals ! 0
                else search_forEach pname opnd (length vals) 0 vals '''')\<rparr>"

definition SpdrDate :: "string \<Rightarrow> DateOperator \<Rightarrow> Date \<Rightarrow> error + SpdrParam" where
  "SpdrDate pname oper d =
     (case toISOString d of
        Inl e \<Rightarrow> Inl e
      | Inr str \<Rightarrow>
          Inr \<lparr>property = pname, operator = DateOp oper, pvalue = VDate d,
               pquery = pname @ ''['' @ DateOperator_str oper @ '']='' @ take 10 str\<rparr>)"

text \<open>
  \<open>SpdrRange\<close>: \<open>secondValue.toString()\<close> stands in the branch of a truthy
  \<open>secondValue\<close> only, so it is never called on \<open>undefined\<close>.
\<close>

definition SpdrRange :: "string \<Rightarrow> RangeOperator \<Rightarrow> number \<Rightarrow> number option \<Rightarrow> SpdrParam" where
  "SpdrRange pname oper v secondValue =
     \<lparr>property = pname, operator = Range oper, pvalue = VNumber v,
      pquery =
        (case secondValue of
           Some v2 \<Rightarrow>
             if truthy secondValue \<and> oper = RangeOperator_between
             then pname @ ''['' @ RangeOperator_str oper @ '']='' @ number_toString v
                  @ ''..'' @ number_toString v2
             else pname @ ''['' @ RangeOperator_str oper @ '']='' @ number_toString v
         | None \<Rightarrow> pname @ ''['' @ RangeOperator_str oper @ '']='' @ number_toString v)\<rparr>"

definition SpdrOrder :: "string \<Rightarrow> OrderOperator \<Rightarrow> SpdrParam" where
  "SpdrOrder pname v =
     \<lparr>property = pname, operator = Base Operator_sort, pvalue = VOrder v,
      pquery = Operator_str Operator_sort @ ''['' @ pname @ '']='' @ OrderOperator_str v\<rparr>"

definition SpdrPagination :: "bool \<Rightarrow> string \<Rightarrow> SpdrParam" where
  "SpdrPagination v pname =
     \<lparr>property = pname, operator = Base Operator_equals, pvalue = VBool v,
      pquery = pname @ Operator_str Operator_equals @ bool_toString v\<rparr>"

definition SpdrPageIdx :: "number \<Rightarrow> string \<Rightarrow> SpdrParam" where
  "SpdrPageIdx v pname =
     \<lparr>property = pname, operator = Base Operator_equals, pvalue = VNumber v,
      pquery = pname @ Operator_str Operator_equals @ number_toString v\<rparr>"

definition SpdrPageSize :: "number \<Rightarrow> string \<Rightarrow> SpdrParam" where
  "SpdrPageSize v pname =
     \<lparr>property = pname, operator = Base Operator_equals, pvalue = VNumber v,
      pquery = pname @ Operator_str Operator_equals @ number_toString v\<rparr>"

section \<open>The query builder (spdrQueryBuilder.ts)\<close>

datatype SpdrParamType =
  SpdrParamType_param | SpdrParamType_sort | SpdrParamType_pagination

text \<open>
  The private fields \<open>_query\<close>, \<open>_operand\<close>, \<open>_history\<close>, \<open>_params\<close>, \<open>_sortParams\<close>
  and \<open>_paginationParams\<close>. An optional argument is an \<open>option\<close>: \<open>None\<close> is the
  argument left out.
\<close>

record SpdrQueryBuilder =
  priv_query :: string
  priv_operand :: string
  priv_history :: "string list"
  priv_params :: "SpdrParam list"
  priv_sortParams :: "SpdrParam list"
  priv_paginationParams :: "SpdrParam list"

definition DEFAULT_OPERAND :: string where
  "DEFAULT_OPERAND = ''&''"

definition constructor :: "string option \<Rightarrow> SpdrQueryBuilder" where
  "constructor opnd =
     \<lparr>priv_query = [],
      priv_operand = (case opnd of None \<Rightarrow> DEFAULT_OPERAND | Some s \<Rightarrow> s),
      priv_history = [], priv_params = [], priv_sortParams = [],
      priv_paginationParams = []\<rparr>"

text \<open>
  \<open>_append\<close>: \<open>param.query\<close> is a string for every \<open>SpdrParamInterface\<close>, so the
  \<open>??\<close> never takes its right-hand side.
\<close>

definition priv_append :: "SpdrParam \<Rightarrow> string option \<Rightarrow> SpdrQueryBuilder \<Rightarrow> SpdrQueryBuilder" where
  "priv_append param opnd b =
     b\<lparr>priv_query :=
         priv_query b @ ((case opnd of None \<Rightarrow> priv_operand b | Some s \<Rightarrow> s) @ pquery param)\<rparr>"

definition priv_buildQuery :: "SpdrQueryBuilder \<Rightarrow> SpdrQueryBuilder" where
  "priv_buildQuery b =
     fold (\<lambda>param s. priv_append param None s)
       (priv_params b @ priv_sortParams b @ priv_paginationParams b)
       (b\<lparr>priv_query := []\<rparr>)"

definition priv_addParam :: "SpdrParam \<Rightarrow> SpdrQueryBuilder \<Rightarrow> SpdrQueryBuilder" where
  "priv_addParam param b = priv_buildQuery (b\<lparr>priv_params := priv_params b @ [param]\<rparr>)"

definition priv_addSortParam :: "SpdrParam \<Rightarrow> SpdrQueryBuilder \<Rightarrow> SpdrQueryBuilder" where
  "priv_addSortParam param b =
     priv_buildQuery (b\<lparr>priv_sortParams := priv_sortParams b @ [param]\<rparr>)"

definition priv_addPaginationParam :: "SpdrParam \<Rightarrow> SpdrQueryBuilder \<Rightarrow> SpdrQueryBuilder" where
  "priv_addPaginationParam param b =
     priv_buildQuery (b\<lparr>priv_paginationParams := priv_paginationParams b @ [param]\<rparr>)"

subsection \<open>Getters and setters\<close>

definition query :: "SpdrQueryBuilder \<Rightarrow> string" where
  "query b = drop (length (priv_operand b)) (priv_query b)"

definition history :: "SpdrQueryBuilder \<Rightarrow> string list" where
  "history b = priv_history b"

text \<open>
  \<open>this._history[this._history.length - 1]\<close>: reading an array outside its indices
  gives \<open>undefined\<close>, here \<open>None\<close>.
\<close>

definition previousQuery :: "SpdrQueryBuilder \<Rightarrow> string option" where
  "previousQuery b =
     (let i = int (length (priv_history b)) - 1
      in if 0 \<le> i \<and> i < int (length (priv_history b))
         then Some (priv_history b ! nat i) else None)"

definition params :: "SpdrQueryBuilder \<Rightarrow> SpdrParam list" where
  "params b = priv_params b"

definition set_params :: "SpdrParam list \<Rightarrow> SpdrQueryBuilder \<Rightarrow> SpdrQueryBuilder" where
  "set_params v b = priv_buildQuery (b\<lparr>priv_params := v\<rparr>)"

definition sortParams :: "SpdrQueryBuilder \<Rightarrow> SpdrParam list" where
  "sortParams b = priv_sortParams b"

definition set_sortParams :: "SpdrParam list \<Rightarrow> SpdrQueryBuilder \<Rightarrow> SpdrQueryBuilder" where
  "set_sortParams v b = priv_buildQuery (b\<lparr>priv_sortParams := v\<rparr>)"

definition paginationParams :: "SpdrQueryBuilder \<Rightarrow> SpdrParam list" where
  "paginationParams b = priv_paginationParams b"

definition set_paginationParams :: "SpdrParam list \<Rightarrow> SpdrQueryBuilder \<Rightarrow> SpdrQueryBuilder" where
  "set_paginationParams v b = priv_buildQuery (b\<lparr>priv_paginationParams := v\<rparr>)"

subsection \<open>Public methods\<close>

definition operand :: "string \<Rightarrow> SpdrQueryBuilder \<Rightarrow> SpdrQueryBuilder" where
  "operand v b = b\<lparr>priv_operand := v\<rparr>"

definition clearHistory :: "SpdrQueryBuilder \<Rightarrow> SpdrQueryBuilder" where
  "clearHistory b = b\<lparr>priv_history := []\<rparr>"

definition search :: "string \<Rightarrow> string list \<Rightarrow> string option \<Rightarrow> SpdrQueryBuilder \<Rightarrow> SpdrQueryBuilder" where
  "search pname vals opnd b =
     priv_addParam
       (SpdrSearch pname vals (case opnd of None \<Rightarrow> priv_operand b | Some s \<Rightarrow> s)) b"

definition exists :: "string \<Rightarrow> bool option \<Rightarrow> SpdrQueryBuilder \<Rightarrow> SpdrQueryBuilder" where
  "exists pname v b =
     priv_addParam (SpdrExists pname (case v of None \<Rightarrow> True | Some x \<Rightarrow> x)) b"

text \<open>The method \<open>range\<close> (the name is taken in HOL).\<close>

definition range_m :: "string \<Rightarrow> RangeOperator \<Rightarrow> number \<Rightarrow> number option \<Rightarrow> SpdrQueryBuilder \<Rightarrow> SpdrQueryBuilder" where
  "range_m pname oper v secondValue b = priv_addParam (SpdrRange pname oper v secondValue) b"

definition date :: "string \<Rightarrow> DateOperator \<Rightarrow> Date \<Rightarrow> SpdrQueryBuilder \<Rightarrow> error + SpdrQueryBuilder" where
  "date pname oper d b =
     (case SpdrDate pname oper d of
        Inl e \<Rightarrow> Inl e
      | Inr param \<Rightarrow> Inr (priv_addParam param b))"

definition order :: "string \<Rightarrow> OrderOperator \<Rightarrow> SpdrQueryBuilder \<Rightarrow> SpdrQueryBuilder" where
  "order pname direction b = priv_addSortParam (SpdrOrder pname direction) b"

definition enablePagination :: "bool option \<Rightarrow> string option \<Rightarrow> SpdrQueryBuilder \<Rightarrow> SpdrQueryBuilder" where
  "enablePagination v pname b =
     priv_addPaginationParam
       (SpdrPagination (case v of None \<Rightarrow> True | Some x \<Rightarrow> x)
          (case pname of None \<Rightarrow> PageOperator_pagination | Some s \<Rightarrow> s)) b"

definition pageIndex :: "number \<Rightarrow> string option \<Rightarrow> SpdrQueryBuilder \<Rightarrow> SpdrQueryBuilder" where
  "pageIndex v pname b =
     priv_addPaginationParam
       (SpdrPageIdx v (case pname of None \<Rightarrow> PageOperator_page | Some s \<Rightarrow> s)) b"

definition pageSize :: "number \<Rightarrow> string option \<Rightarrow> SpdrQueryBuilder \<Rightarrow> SpdrQueryBuilder" where
  "pageSize v pname b =
     priv_addPaginationParam
       (SpdrPageSize v (case pname of None \<Rightarrow> PageOperator_itemsPerPage | Some s \<Rightarrow> s)) b"

text \<open>
  \<open>clear\<close>: the \<open>switch\<close> empties the sequences, then \<open>this.query\<close> is read (the
  accumulator is not rebuilt yet) and pushed, then \<open>_buildQuery\<close> runs.
\<close>

definition clear :: "SpdrParamType option \<Rightarrow> SpdrQueryBuilder \<Rightarrow> SpdrQueryBuilder" where
  "clear t b =
     (let b1 = (case t of
                  Some SpdrParamType_param \<Rightarrow> b\<lparr>priv_params := []\<rparr>
                | Some SpdrParamType_sort \<Rightarrow> b\<lparr>priv_sortParams := []\<rparr>
                | Some SpdrParamType_pagination \<Rightarrow> b\<lparr>priv_paginationParams := []\<rparr>
                | None \<Rightarrow>
                    b\<lparr>priv_params := [], priv_sortParams := [], priv_paginationParams := []\<rparr>);
          b2 = b1\<lparr>priv_history := priv_history b1 @ [query b1]\<rparr>
      in priv_buildQuery b2)"

text \<open>The \<open>filter\<close> of \<open>remove\<close>: the parameters whose property is not \<open>pname\<close>.\<close>

definition keep :: "string \<Rightarrow> SpdrParam list \<Rightarrow> SpdrParam list" where
  "keep pname ps = filter (\<lambda>param. property param \<noteq> pname) ps"

definition remove :: "string \<Rightarrow> SpdrParamType option \<Rightarrow> SpdrQueryBuilder \<Rightarrow> SpdrQueryBuilder" where
  "remove pname t b =
     (let b1 = (case t of
                  Some SpdrParamType_param \<Rightarrow> b\<lparr>priv_params := keep pname (priv_params b)\<rparr>
                | Some SpdrParamType_sort \<Rightarrow>
                    b\<lparr>priv_sortParams := keep pname (priv_sortParams b)\<rparr>
                | Some SpdrParamType_pagination \<Rightarrow>
                    b\<lparr>priv_paginationParams := keep pname (priv_paginationParams b)\<rparr>
                | None \<Rightarrow>
                    b\<lparr>priv_params := keep pname (priv_params b),
                      priv_sortParams := keep pname (priv_sortParams b),
                      priv_paginationParams := keep pname (priv_paginationParams b)\<rparr>)
      in priv_buildQuery b1)"

section \<open>The query string the specification describes\<close>

text \<open>
  From the specification's words, for comparison with \<open>query\<close>: the tokens joined by
  the operand (no operand before the first token, none after the last).
\<close>

fun join :: "string \<Rightarrow> string list \<Rightarrow> string" where
  "join sep [] = []"
| "join sep [t] = t"
| "join sep (t # u # ts) = t @ sep @ join sep (u # ts)"

definition all_tokens :: "SpdrQueryBuilder \<Rightarrow> string list" where
  "all_tokens b = map pquery (params b @ sortParams b @ paginationParams b)"

definition joined_query :: "SpdrQueryBuilder \<Rightarrow> string" where
  "joined_query b = join (priv_operand b) (all_tokens b)"

section \<open>Reachable builders\<close>

text \<open>
  The builders a caller can obtain: the constructor and the public methods and setters.
  \<open>built_with sep b\<close>: the accumulator of \<open>b\<close> is what a rebuild with the operand
  \<open>sep\<close> leaves.
\<close>

inductive reachable :: "SpdrQueryBuilder \<Rightarrow> bool" where
  r_constructor: "reachable (constructor opnd)"
| r_operand: "reachable b \<Longrightarrow> reachable (operand v b)"
| r_clearHistory: "reachable b \<Longrightarrow> reachable (clearHistory b)"
| r_search: "reachable b \<Longrightarrow> reachable (search pname vals opnd b)"
| r_exists: "reachable b \<Longrightarrow> reachable (exists pname flag b)"
| r_range: "reachable b \<Longrightarrow> reachable (range_m pname roper n secondValue b)"
| r_date: "reachable b \<Longrightarrow> date pname doper d b = Inr b' \<Longrightarrow> reachable b'"
| r_order: "reachable b \<Longrightarrow> reachable (order pname direction b)"
| r_enablePagination: "reachable b \<Longrightarrow> reachable (enablePagination flag popt b)"
| r_pageIndex: "reachable b \<Longrightarrow> reachable (pageIndex n popt b)"
| r_pageSize: "reachable b \<Longrightarrow> reachable (pageSize n popt b)"
| r_clear: "reachable b \<Longrightarrow> reachable (clear t b)"
| r_remove: "reachable b \<Longrightarrow> reachable (remove pname t b)"
| r_set_params: "reachable b \<Longrightarrow> reachable (set_params ps b)"
| r_set_sortParams: "reachable b \<Longrightarrow> reachable (set_sortParams ps b)"
| r_set_paginationParams: "reachable b \<Longrightarrow> reachable (set_paginationParams ps b)"

definition built_with :: "string \<Rightarrow> SpdrQueryBuilder \<Rightarrow> bool" where
  "built_with sep b =
     (priv_query b =
        concat (map (\<lambda>param. sep @ pquery param)
          (priv_params b @ priv_sortParams b @ priv_paginationParams b)))"

section \<open>Rebuilding\<close>

lemma fold_priv_append:
  "fold (\<lambda>param s. priv_append param None s) ps s0 =
     s0\<lparr>priv_query := priv_query s0 @ concat (map (\<lambda>param. priv_operand s0 @ pquery param) ps)\<rparr>"
  by (induction ps arbitrary: s0) (simp_all add: priv_append_def)

lemma priv_buildQuery_eq:
  "priv_buildQuery b =
     b\<lparr>priv_query :=
         concat (map (\<lambda>param. priv_operand b @ pquery param)
           (priv_params b @ priv_sortParams b @ priv_paginationParams b))\<rparr>"
  by (simp add: priv_buildQuery_def fold_priv_append)

lemma drop_concat_join:
  "drop (length sep) (concat (map (\<lambda>t. sep @ t) ts)) = join sep ts"
  by (induction sep ts rule: join.induct) simp_all

lemma query_priv_buildQuery: "query (priv_buildQuery b) = joined_query b"
proof -
  let ?ps = "priv_params b @ priv_sortParams b @ priv_paginationParams b"
  have "query (priv_buildQuery b) =
        drop (length (priv_operand b))
          (concat (map (\<lambda>param. priv_operand b @ pquery param) ?ps))"
    by (simp add: query_def priv_buildQuery_eq)
  also have "concat (map (\<lambda>param. priv_operand b @ pquery param) ?ps) =
             concat (map (\<lambda>t. priv_operand b @ t) (map pquery ?ps))"
    by (simp only: map_map comp_def)
  also have "drop (length (priv_operand b)) \<dots> = join (priv_operand b) (map pquery ?ps)"
    by (rule drop_concat_join)
  finally show ?thesis
    by (simp add: joined_query_def all_tokens_def params_def sortParams_def
        paginationParams_def)
qed

lemma priv_buildQuery_fields:
  "priv_operand (priv_buildQuery b) = priv_operand b"
  "priv_history (priv_buildQuery b) = priv_history b"
  "priv_params (priv_buildQuery b) = priv_params b"
  "priv_sortParams (priv_buildQuery b) = priv_sortParams b"
  "priv_paginationParams (priv_buildQuery b) = priv_paginationParams b"
  by (simp_all add: priv_buildQuery_eq)

lemma priv_buildQuery_idem: "priv_buildQuery (priv_buildQuery b) = priv_buildQuery b"
  by (simp add: priv_buildQuery_eq)

lemma joined_query_priv_buildQuery: "joined_query (priv_buildQuery b) = joined_query b"
  by (simp add: joined_query_def all_tokens_def params_def sortParams_def
      paginationParams_def priv_buildQuery_fields)

text \<open>
  Every method that ends in \<open>_buildQuery\<close> leaves a builder whose \<open>query\<close> is the
  operand-joined string of its tokens.
\<close>

lemma query_after_add:
  "query (search pname vals opnd b) = joined_query (search pname vals opnd b)"
  "query (exists pname v b) = joined_query (exists pname v b)"
  "query (range_m pname oper n secondValue b) = joined_query (range_m pname oper n secondValue b)"
  "query (order pname direction b) = joined_query (order pname direction b)"
  "query (enablePagination v popt b) = joined_query (enablePagination v popt b)"
  "query (pageIndex n popt b) = joined_query (pageIndex n popt b)"
  "query (pageSize n popt b) = joined_query (pageSize n popt b)"
  by (simp_all add: search_def exists_def range_m_def order_def enablePagination_def
      pageIndex_def pageSize_def priv_addParam_def priv_addSortParam_def
      priv_addPaginationParam_def query_priv_buildQuery joined_query_priv_buildQuery)

lemma query_after_date:
  "date pname oper d b = Inr b' \<Longrightarrow> query b' = joined_query b'"
  by (auto simp: date_def priv_addParam_def query_priv_buildQuery
      joined_query_priv_buildQuery split: sum.splits)

lemma query_after_set:
  "query (set_params ps b) = joined_query (set_params ps b)"
  "query (set_sortParams ps b) = joined_query (set_sortParams ps b)"
  "query (set_paginationParams ps b) = joined_query (set_paginationParams ps b)"
  by (simp_all add: set_params_def set_sortParams_def set_paginationParams_def
      query_priv_buildQuery joined_query_priv_buildQuery)

lemma query_after_clear: "query (clear t b) = joined_query (clear t b)"
  by (simp add: clear_def Let_def query_priv_buildQuery joined_query_priv_buildQuery)

lemma query_after_remove: "query (remove pname t b) = joined_query (remove pname t b)"
  by (simp add: remove_def Let_def query_priv_buildQuery joined_query_priv_buildQuery)

text \<open>\<open>operand\<close> and \<open>clearHistory\<close> are the two methods that do not rebuild.\<close>

lemma query_after_operand: "query (operand v b) = drop (length v) (priv_query b)"
  by (simp add: query_def operand_def)

lemma query_after_clearHistory: "query (clearHistory b) = query b"
  by (simp add: query_def clearHistory_def)

text \<open>
  At every reachable builder the accumulator was built with some operand: the one in
  force at the last rebuild, which \<open>operand\<close> may since have replaced. Where it is
  the current operand, \<open>query\<close> is the operand-joined string of the tokens.
\<close>

lemma built_with_priv_buildQuery: "built_with (priv_operand b) (priv_buildQuery b)"
  by (simp add: built_with_def priv_buildQuery_eq)

lemma built_with_rebuilt:
  "b' = priv_buildQuery b1 \<Longrightarrow> \<exists>sep. built_with sep b'"
  using built_with_priv_buildQuery [of b1]
  by (auto simp: priv_buildQuery_fields priv_buildQuery_idem)

lemma reachable_built_with: "reachable b \<Longrightarrow> \<exists>sep. built_with sep b"
proof (induction rule: reachable.induct)
  case (r_constructor opnd)
  then show ?case by (simp add: built_with_def constructor_def)
next
  case (r_operand b v)
  then show ?case by (simp add: built_with_def operand_def)
next
  case (r_clearHistory b)
  then show ?case by (simp add: built_with_def clearHistory_def)
next
  case (r_date b pname doper d b')
  then show ?case
    by (auto simp: date_def priv_addParam_def split: sum.splits intro: built_with_rebuilt)
next
  case (r_clear b t)
  show ?case by (rule built_with_rebuilt) (simp add: clear_def Let_def)
next
  case (r_remove b pname t)
  show ?case by (rule built_with_rebuilt) (simp add: remove_def Let_def)
qed (rule built_with_rebuilt,
     simp add: search_def exists_def range_m_def order_def enablePagination_def pageIndex_def
       pageSize_def priv_addParam_def priv_addSortParam_def priv_addPaginationParam_def
       set_params_def set_sortParams_def set_paginationParams_def)+

lemma built_with_query:
  "built_with (priv_operand b) b \<Longrightarrow> query b = joined_query b"
proof -
  assume "built_with (priv_operand b) b"
  then have "priv_buildQuery b = b" by (simp add: built_with_def priv_buildQuery_eq)
  then show ?thesis using query_priv_buildQuery [of b] by simp
qed

section \<open>Decimal numerals and dates\<close>

lemma string_of_nat_examples:
  "string_of_nat 0 = ''0''" "string_of_nat 1 = ''1''" "string_of_nat (Suc 0) = ''1''"
  "string_of_nat 3 = ''3''" "string_of_nat 5 = ''5''" "string_of_nat 10 = ''10''"
  "string_of_nat 2021 = ''2021''" "string_of_nat 10000 = ''10000''"
  by (simp_all add: string_of_nat.simps digit_char_def)

lemma length_string_of_nat: "0 < k \<Longrightarrow> n < 10 ^ k \<Longrightarrow> length (string_of_nat n) \<le> k"
proof (induction k arbitrary: n)
  case 0
  then show ?case by simp
next
  case (Suc k)
  show ?case
  proof (cases "n < 10")
    case True
    then show ?thesis by (simp add: string_of_nat.simps [of n])
  next
    case False
    with Suc.prems have "0 < k" by (cases k) auto
    moreover from Suc.prems have "n div 10 < 10 ^ k"
      by (simp add: less_mult_imp_div_less mult.commute)
    ultimately have "length (string_of_nat (n div 10)) \<le> k" by (rule Suc.IH)
    with False show ?thesis by (simp add: string_of_nat.simps [of n])
  qed
qed

lemma length_pad: "0 < w \<Longrightarrow> k < 10 ^ w \<Longrightarrow> length (pad w k) = w"
  using length_string_of_nat [of w k] by (simp add: pad_def)

subsection \<open>Numbers as strings\<close>

lemma string_of_nat_digits:
  "string_of_nat 0 = ''0''" "string_of_nat 1 = ''1''" "string_of_nat (Suc 0) = ''1''"
  "string_of_nat 2 = ''2''" "string_of_nat 5 = ''5''" "string_of_nat 7 = ''7''"
  "string_of_nat 15 = ''15''" "string_of_nat 21 = ''21''"
  by (simp_all add: string_of_nat.simps digit_char_def)

lemma string_of_nat_nonempty: "0 < length (string_of_nat n)"
  by (simp add: string_of_nat.simps [of n])

lemma strip_zeros_done: "s mod 10 \<noteq> 0 \<Longrightarrow> strip_zeros s e = (s, e)"
  by (simp add: strip_zeros.simps [of s])

lemma strip_zeros_step:
  "s \<noteq> 0 \<Longrightarrow> s mod 10 = 0 \<Longrightarrow> strip_zeros s e = strip_zeros (s div 10) (e + 1)"
  by (simp add: strip_zeros.simps [of s])

lemma strip_zeros_digits:
  "s \<noteq> 0 \<Longrightarrow> strip_zeros s e = (s', e') \<Longrightarrow>
   e \<le> e' \<and> string_of_nat s = string_of_nat s' @ replicate (nat (e' - e)) (CHR ''0'')"
proof (induction s e rule: strip_zeros.induct)
  case (1 s e)
  show ?case
  proof (cases "s mod 10 = 0")
    case False
    with "1.prems" show ?thesis by (simp add: strip_zeros_done)
  next
    case True
    with "1.prems" have ge: "\<not> s < 10" and nz: "s div 10 \<noteq> 0" by auto
    from True "1.prems" have "strip_zeros (s div 10) (e + 1) = (s', e')"
      by (simp add: strip_zeros_step)
    with "1.IH" "1.prems" True nz
    have le: "e + 1 \<le> e'"
      and ds: "string_of_nat (s div 10)
               = string_of_nat s' @ replicate (nat (e' - (e + 1))) (CHR ''0'')"
      by auto
    from le have "nat (e' - e) = Suc (nat (e' - (e + 1)))" by simp
    moreover from ge True have "string_of_nat s = string_of_nat (s div 10) @ ''0''"
      by (simp add: string_of_nat.simps [of s] digit_char_def)
    ultimately show ?thesis using le ds by (simp add: replicate_append_same)
  qed
qed

text \<open>
  An integer from 1 up to (not including) \<open>10\<^sup>2\<^sup>1\<close> is printed as its decimal numeral,
  with a minus sign when negative.
\<close>

lemma number_toString_integer:
  assumes "0 < i" and "i < 10 ^ 21"
  shows "number_toString (Decimal False i 0) = string_of_nat i"
    and "number_toString (Decimal True i 0) = ''-'' @ string_of_nat i"
proof -
  obtain s' e' where st: "strip_zeros i 0 = (s', e')" by (cases "strip_zeros i 0")
  with assms strip_zeros_digits [of i 0 s' e']
  have e: "0 \<le> e'" and ds: "string_of_nat i = string_of_nat s' @ replicate (nat e') (CHR ''0'')"
    by auto
  let ?k = "int (length (string_of_nat s'))"
  from assms length_string_of_nat [of 21 i] have "length (string_of_nat i) \<le> 21" by simp
  with ds e have up: "e' + ?k \<le> 21" by simp
  from e have lo: "?k \<le> e' + ?k" by simp
  from string_of_nat_nonempty [of s'] e have "- 5 \<le> e' + ?k" by simp
  with up lo have "digits_toString (string_of_nat s') (e' + ?k) = string_of_nat i"
    by (simp add: digits_toString_def Let_def ds)
  with assms st show "number_toString (Decimal False i 0) = string_of_nat i"
    and "number_toString (Decimal True i 0) = ''-'' @ string_of_nat i"
    by simp_all
qed

lemma replicate_two: "replicate 2 c = [c, c]"
  by (simp add: numeral_2_eq_2)

lemma strip_zeros_examples:
  "strip_zeros 10 0 = (1, 1)" "strip_zeros 20 0 = (2, 1)"
  by (simp_all add: strip_zeros.simps)

lemma number_toString_examples:
  "number_toString (Decimal False 10 0) = ''10''"
  "number_toString (Decimal False 20 0) = ''20''"
  "number_toString (Decimal False 0 0) = ''0''"
  "number_toString (Decimal True 0 0) = ''0''"
  "number_toString (Decimal False 15 (- 1)) = ''1.5''"
  "number_toString (Decimal True 5 0) = ''-5''"
  "number_toString (Decimal False 1 21) = ''1e+21''"
  "number_toString (Decimal False (Suc 0) 21) = ''1e+21''"
  "number_toString (Decimal False 1 (- 7)) = ''1e-7''"
  "number_toString (Decimal False 5 (- 3)) = ''0.005''"
  "number_toString (Infinity False) = ''Infinity''"
  "number_toString (Infinity True) = ''-Infinity''"
  "number_toString NaN = ''NaN''"
  by (simp_all add: strip_zeros_examples strip_zeros_done digits_toString_def
      string_of_nat_digits replicate_two)

text \<open>
  For a year of four digits \<open>SpdrDate\<close> keeps exactly the year, the month and the day
  of the ISO string.
\<close>

lemma SpdrDate_four_digit_year:
  assumes "0 \<le> year t" and "year t \<le> 9999" and "month t < 100" and "day t < 100"
  shows "SpdrDate pname oper (Date_UTC t) =
    Inr \<lparr>property = pname, operator = DateOp oper, pvalue = VDate (Date_UTC t),
         pquery = pname @ ''['' @ DateOperator_str oper @ '']='' @ pad 4 (nat (year t))
                  @ ''-'' @ pad 2 (month t) @ ''-'' @ pad 2 (day t)\<rparr>"
proof -
  from assms have "nat (year t) < 10 ^ 4" by simp
  then have y: "length (pad 4 (nat (year t))) = 4" by (simp add: length_pad)
  from assms have m: "length (pad 2 (month t)) = 2" and d: "length (pad 2 (day t)) = 2"
    by (simp_all add: length_pad)
  from assms y m d show ?thesis
    by (simp add: SpdrDate_def year_string_def)
qed

lemma SpdrDate_example:
  "SpdrDate ''createdAt'' DateOperator_after
     (Date_UTC \<lparr>year = 2021, month = 5, day = 3, hours = 10, minutes = 0, seconds = 0,
                milliseconds = 0\<rparr>)
   = Inr \<lparr>property = ''createdAt'', operator = DateOp DateOperator_after,
          pvalue = VDate (Date_UTC \<lparr>year = 2021, month = 5, day = 3, hours = 10,
                                    minutes = 0, seconds = 0, milliseconds = 0\<rparr>),
          pquery = ''createdAt[after]=2021-05-03''\<rparr>"
  by (simp add: SpdrDate_def year_string_def pad_def string_of_nat_examples)

section \<open>The search token\<close>

lemma search_forEach_eq:
  "vs \<noteq> [] \<Longrightarrow> i + length vs = n \<Longrightarrow>
   search_forEach pname opnd n i vs q =
     q @ concat (map (\<lambda>u. pname @ ''[]='' @ u @ opnd) (butlast vs)) @ pname @ ''[]='' @ last vs"
proof (induction vs arbitrary: i q)
  case Nil
  then show ?case by simp
next
  case (Cons v vs)
  show ?case
  proof (cases "vs = []")
    case True
    with Cons.prems show ?thesis by auto
  next
    case False
    then have "0 < length vs" by simp
    with Cons.prems have ne: "int i \<noteq> int n - 1" by auto
    from Cons.prems have "Suc i + length vs = n" by simp
    from Cons.IH [OF False this] ne False show ?thesis by simp
  qed
qed

section \<open>The claims\<close>

text \<open>
  C1. For every builder whose three sequences are together non-empty, \<open>query\<close> is the
  tokens (filters, then sort, then pagination, each in insertion order) joined by the
  current operand. The builder below is reached by \<open>exists\<close>, \<open>order\<close> and then
  \<open>operand\<close>: its sequences hold two tokens, its operand is \<open>;\<close>, and \<open>query\<close> still
  joins the tokens by \<open>&\<close>, since \<open>operand\<close> does not rebuild the accumulator.
  (\<open>query_after_add\<close>, \<open>query_after_set\<close>, \<open>query_after_clear\<close> and
  \<open>query_after_remove\<close> give the equality after every method that rebuilds.)
\<close>

theorem query_not_joined_after_operand:
  "reachable (operand '';'' (order ''b'' OrderOperator_asc (exists ''a'' None (constructor None))))
   \<and> all_tokens
         (operand '';'' (order ''b'' OrderOperator_asc (exists ''a'' None (constructor None))))
       = [''exists[a]=true'', ''order[b]=asc'']
   \<and> query (operand '';'' (order ''b'' OrderOperator_asc (exists ''a'' None (constructor None))))
       = ''exists[a]=true&order[b]=asc''
   \<and> joined_query
         (operand '';'' (order ''b'' OrderOperator_asc (exists ''a'' None (constructor None))))
       = ''exists[a]=true;order[b]=asc''"
proof -
  have "reachable
          (operand '';'' (order ''b'' OrderOperator_asc (exists ''a'' None (constructor None))))"
    by (intro r_operand r_order r_exists r_constructor)
  moreover have
    "all_tokens
       (operand '';'' (order ''b'' OrderOperator_asc (exists ''a'' None (constructor None))))
     = [''exists[a]=true'', ''order[b]=asc'']"
    by code_simp
  moreover have
    "query (operand '';'' (order ''b'' OrderOperator_asc (exists ''a'' None (constructor None))))
     = ''exists[a]=true&order[b]=asc''"
    by code_simp
  moreover have
    "joined_query
       (operand '';'' (order ''b'' OrderOperator_asc (exists ''a'' None (constructor None))))
     = ''exists[a]=true;order[b]=asc''"
    by code_simp
  ultimately show ?thesis by blast
qed

text \<open>
  C2. \<open>clear()\<close> with no argument empties the three sequences, appends to \<open>history\<close>
  exactly one entry, the value \<open>query\<close> had just before the call, and leaves \<open>query\<close>
  empty; so the last entry of \<open>history\<close> after a clear is the query as it was just
  before that clear.
\<close>

theorem clear_without_argument:
  "params (clear None b) = [] \<and> sortParams (clear None b) = []
   \<and> paginationParams (clear None b) = []
   \<and> history (clear None b) = history b @ [query b]
   \<and> last (history (clear None b)) = query b
   \<and> query (clear None b) = []"
  by (simp add: clear_def Let_def priv_buildQuery_eq query_def history_def params_def
      sortParams_def paginationParams_def)

text \<open>
  C3. At every reachable builder state \<open>query\<close> equals the query recomputed from the
  three sequences and the current operand, also right after \<open>operand\<close>. The builder
  below is reached by \<open>exists\<close> and then \<open>operand\<close>: \<open>query\<close> drops two characters of
  an accumulator built with a one-character operand, and recomputing (\<open>_buildQuery\<close>)
  gives another string.
\<close>

theorem query_stale_after_operand:
  "reachable (operand ''&&'' (exists ''a'' None (constructor None)))
   \<and> query (operand ''&&'' (exists ''a'' None (constructor None))) = ''xists[a]=true''
   \<and> query (priv_buildQuery (operand ''&&'' (exists ''a'' None (constructor None))))
       = ''exists[a]=true''
   \<and> joined_query (operand ''&&'' (exists ''a'' None (constructor None)))
       = ''exists[a]=true''"
proof -
  have "reachable (operand ''&&'' (exists ''a'' None (constructor None)))"
    by (intro r_operand r_exists r_constructor)
  moreover have
    "query (operand ''&&'' (exists ''a'' None (constructor None))) = ''xists[a]=true''"
    by code_simp
  moreover have
    "query (priv_buildQuery (operand ''&&'' (exists ''a'' None (constructor None))))
     = ''exists[a]=true''"
    by code_simp
  moreover have
    "joined_query (operand ''&&'' (exists ''a'' None (constructor None))) = ''exists[a]=true''"
    by code_simp
  ultimately show ?thesis by blast
qed

text \<open>
  C4. The Range token is \<open><property>[<operator>]=<v>..<v2>\<close> exactly when the operator
  is \<open>between\<close> and the second value is truthy, and \<open><property>[<operator>]=<v>\<close>
  otherwise; a second value of 0 counts as absent. The second value is taken case by
  case: left out, a finite Number (truthy exactly when it is not zero), an infinity
  (truthy) and \<open>NaN\<close> (falsy); then the tokens of the specification's examples and of
  each operator are computed.
\<close>

theorem range_token:
  "pquery (SpdrRange pname oper v None)
     = pname @ ''['' @ RangeOperator_str oper @ '']='' @ number_toString v
   \<and> pquery (SpdrRange pname oper v (Some (Decimal neg s e)))
     = (if oper = RangeOperator_between \<and> s \<noteq> 0
        then pname @ ''['' @ RangeOperator_str oper @ '']='' @ number_toString v
             @ ''..'' @ number_toString (Decimal neg s e)
        else pname @ ''['' @ RangeOperator_str oper @ '']='' @ number_toString v)
   \<and> pquery (SpdrRange pname oper v (Some (Infinity neg)))
     = (if oper = RangeOperator_between
        then pname @ ''['' @ RangeOperator_str oper @ '']='' @ number_toString v
             @ ''..'' @ number_toString (Infinity neg)
        else pname @ ''['' @ RangeOperator_str oper @ '']='' @ number_toString v)
   \<and> pquery (SpdrRange pname oper v (Some NaN))
     = pname @ ''['' @ RangeOperator_str oper @ '']='' @ number_toString v
   \<and> (pquery (SpdrRange pname oper v (Some (Decimal neg s e)))
        = pname @ ''['' @ RangeOperator_str oper @ '']='' @ number_toString v
          @ ''..'' @ number_toString (Decimal neg s e))
       = (oper = RangeOperator_between \<and> s \<noteq> 0)
   \<and> pquery (SpdrRange pname RangeOperator_between v (Some (Decimal neg 0 e)))
     = pname @ ''[between]='' @ number_toString v
   \<and> pquery (SpdrRange ''price'' RangeOperator_between (Decimal False 10 0)
         (Some (Decimal False 20 0))) = ''price[between]=10..20''
   \<and> pquery (SpdrRange ''price'' RangeOperator_between (Decimal False 10 0)
         (Some (Decimal False 0 0))) = ''price[between]=10''
   \<and> pquery (SpdrRange ''price'' RangeOperator_between (Decimal False 10 0)
         (Some (Decimal True 0 0))) = ''price[between]=10''
   \<and> pquery (SpdrRange ''price'' RangeOperator_between (Decimal False 10 0) (Some NaN))
       = ''price[between]=10''
   \<and> pquery (SpdrRange ''price'' RangeOperator_between (Decimal False 10 0) None)
       = ''price[between]=10''
   \<and> pquery (SpdrRange ''price'' RangeOperator_between (Decimal False 15 (- 1))
         (Some (Decimal False 1 21))) = ''price[between]=1.5..1e+21''
   \<and> pquery (SpdrRange ''price'' RangeOperator_between (Decimal True 5 0)
         (Some (Infinity False))) = ''price[between]=-5..Infinity''
   \<and> pquery (SpdrRange ''price'' RangeOperator_gte (Decimal False 10 0)
         (Some (Decimal False 20 0))) = ''price[gte]=10''
   \<and> pquery (SpdrRange ''price'' RangeOperator_gt (Decimal False 10 0) None)
       = ''price[gt]=10''
   \<and> pquery (SpdrRange ''price'' RangeOperator_lte (Decimal False 10 0) None)
       = ''price[lte]=10''
   \<and> pquery (SpdrRange ''price'' RangeOperator_lt (Decimal False 10 0) None)
       = ''price[lt]=10''"
proof -
  let ?single = "pname @ ''['' @ RangeOperator_str oper @ '']='' @ number_toString v"
  have absent: "pquery (SpdrRange pname oper v None) = ?single"
    by (simp add: SpdrRange_def)
  have finite: "pquery (SpdrRange pname oper v (Some (Decimal neg s e)))
     = (if oper = RangeOperator_between \<and> s \<noteq> 0
        then ?single @ ''..'' @ number_toString (Decimal neg s e) else ?single)"
    by (simp add: SpdrRange_def)
  have infinite: "pquery (SpdrRange pname oper v (Some (Infinity neg)))
     = (if oper = RangeOperator_between
        then ?single @ ''..'' @ number_toString (Infinity neg) else ?single)"
    by (simp add: SpdrRange_def)
  have nan: "pquery (SpdrRange pname oper v (Some NaN)) = ?single"
    by (simp add: SpdrRange_def)
  have exactly: "(pquery (SpdrRange pname oper v (Some (Decimal neg s e)))
        = ?single @ ''..'' @ number_toString (Decimal neg s e))
       = (oper = RangeOperator_between \<and> s \<noteq> 0)"
    by (simp add: SpdrRange_def)
  have zero: "pquery (SpdrRange pname RangeOperator_between v (Some (Decimal neg 0 e)))
     = pname @ ''[between]='' @ number_toString v"
    by (simp add: SpdrRange_def)
  have ex1: "pquery (SpdrRange ''price'' RangeOperator_between (Decimal False 10 0)
         (Some (Decimal False 20 0))) = ''price[between]=10..20''"
    by (simp add: SpdrRange_def number_toString_examples del: number_toString.simps)
  have ex2: "pquery (SpdrRange ''price'' RangeOperator_between (Decimal False 10 0)
         (Some (Decimal False 0 0))) = ''price[between]=10''"
    by (simp add: SpdrRange_def number_toString_examples del: number_toString.simps)
  have ex3: "pquery (SpdrRange ''price'' RangeOperator_between (Decimal False 10 0)
         (Some (Decimal True 0 0))) = ''price[between]=10''"
    by (simp add: SpdrRange_def number_toString_examples del: number_toString.simps)
  have ex4: "pquery (SpdrRange ''price'' RangeOperator_between (Decimal False 10 0) (Some NaN))
       = ''price[between]=10''"
    by (simp add: SpdrRange_def number_toString_examples del: number_toString.simps)
  have ex5: "pquery (SpdrRange ''price'' RangeOperator_between (Decimal False 10 0) None)
       = ''price[between]=10''"
    by (simp add: SpdrRange_def number_toString_examples del: number_toString.simps)
  have ex6: "pquery (SpdrRange ''price'' RangeOperator_between (Decimal False 15 (- 1))
         (Some (Decimal False 1 21))) = ''price[between]=1.5..1e+21''"
    by (simp add: SpdrRange_def number_toString_examples del: number_toString.simps)
  have ex7: "pquery (SpdrRange ''price'' RangeOperator_between (Decimal True 5 0)
         (Some (Infinity False))) = ''price[between]=-5..Infinity''"
    by (simp add: SpdrRange_def number_toString_examples del: number_toString.simps)
  have ex8: "pquery (SpdrRange ''price'' RangeOperator_gte (Decimal False 10 0)
         (Some (Decimal False 20 0))) = ''price[gte]=10''"
    by (simp add: SpdrRange_def number_toString_examples del: number_toString.simps)
  have ex9: "pquery (SpdrRange ''price'' RangeOperator_gt (Decimal False 10 0) None)
       = ''price[gt]=10''"
    by (simp add: SpdrRange_def number_toString_examples del: number_toString.simps)
  have ex10: "pquery (SpdrRange ''price'' RangeOperator_lte (Decimal False 10 0) None)
       = ''price[lte]=10''"
    by (simp add: SpdrRange_def number_toString_examples del: number_toString.simps)
  have ex11: "pquery (SpdrRange ''price'' RangeOperator_lt (Decimal False 10 0) None)
       = ''price[lt]=10''"
    by (simp add: SpdrRange_def number_toString_examples del: number_toString.simps)
  from absent finite infinite nan exactly zero show ?thesis
    unfolding ex1 ex2 ex3 ex4 ex5 ex6 ex7 ex8 ex9 ex10 ex11 by simp
qed

text \<open>
  C5. A Search parameter with exactly one value has the token \<open><property>=<value>\<close>;
  with two or more values, each value but the last gives \<open><property>[]=<value>\<close>
  followed by the operand and the last gives \<open><property>[]=<value>\<close> alone.
\<close>

theorem search_token:
  "pquery (SpdrSearch pname [v] opnd) = pname @ ''='' @ v
   \<and> pquery (SpdrSearch pname (v # w # vs) opnd) =
       concat (map (\<lambda>u. pname @ ''[]='' @ u @ opnd) (butlast (v # w # vs)))
       @ pname @ ''[]='' @ last (v # w # vs)
   \<and> pquery (SpdrSearch ''tag'' [''a'', ''b''] ''&'') = ''tag[]=a&tag[]=b''"
proof -
  have one: "pquery (SpdrSearch pname [v] opnd) = pname @ ''='' @ v"
    by (simp add: SpdrSearch_def)
  have many: "pquery (SpdrSearch pname us opnd) =
       concat (map (\<lambda>u. pname @ ''[]='' @ u @ opnd) (butlast us))
       @ pname @ ''[]='' @ last us" if "us = v # w # vs" for us
    using search_forEach_eq [of us 0 "length us" pname opnd "[]"] that
    by (simp add: SpdrSearch_def)
  have ex: "pquery (SpdrSearch ''tag'' [''a'', ''b''] ''&'') = ''tag[]=a&tag[]=b''"
    by (simp add: SpdrSearch_def)
  from one many [OF refl] ex show ?thesis by blast
qed

text \<open>
  C6. The Date token is \<open><property>[<operator>]=<YYYY-MM-DD>\<close>, the UTC calendar date
  of the value, for every Date. For 1 January of the year 10000 the ISO string starts
  with a sign and six digits, and its first ten characters end inside the month; on
  the invalid date \<open>toISOString\<close> throws. (\<open>SpdrDate_four_digit_year\<close> gives the
  token for the years 0 to 9999.)
\<close>

theorem SpdrDate_year_10000:
  "SpdrDate ''createdAt'' DateOperator_after
     (Date_UTC \<lparr>year = 10000, month = 1, day = 1, hours = 0, minutes = 0, seconds = 0,
                milliseconds = 0\<rparr>)
   = Inr \<lparr>property = ''createdAt'', operator = DateOp DateOperator_after,
          pvalue = VDate (Date_UTC \<lparr>year = 10000, month = 1, day = 1, hours = 0,
                                    minutes = 0, seconds = 0, milliseconds = 0\<rparr>),
          pquery = ''createdAt[after]=+010000-01''\<rparr>
   \<and> SpdrDate ''createdAt'' DateOperator_after Invalid_Date = Inl RangeError"
  by (simp add: SpdrDate_def year_string_def pad_def string_of_nat_examples)

text \<open>
  C7. \<open>remove(property)\<close> with no category removes every parameter of that property
  from all three sequences; \<open>remove(property, category)\<close> removes them from the named
  sequence only; in both cases \<open>query\<close> is rebuilt from the sequences left and
  \<open>history\<close> is unchanged.
\<close>

theorem remove_by_category:
  "params (remove pname None b) = filter (\<lambda>x. property x \<noteq> pname) (params b)
   \<and> sortParams (remove pname None b) = filter (\<lambda>x. property x \<noteq> pname) (sortParams b)
   \<and> paginationParams (remove pname None b)
       = filter (\<lambda>x. property x \<noteq> pname) (paginationParams b)
   \<and> params (remove pname (Some SpdrParamType_param) b)
       = filter (\<lambda>x. property x \<noteq> pname) (params b)
   \<and> sortParams (remove pname (Some SpdrParamType_param) b) = sortParams b
   \<and> paginationParams (remove pname (Some SpdrParamType_param) b) = paginationParams b
   \<and> params (remove pname (Some SpdrParamType_sort) b) = params b
   \<and> sortParams (remove pname (Some SpdrParamType_sort) b)
       = filter (\<lambda>x. property x \<noteq> pname) (sortParams b)
   \<and> paginationParams (remove pname (Some SpdrParamType_sort) b) = paginationParams b
   \<and> params (remove pname (Some SpdrParamType_pagination) b) = params b
   \<and> sortParams (remove pname (Some SpdrParamType_pagination) b) = sortParams b
   \<and> paginationParams (remove pname (Some SpdrParamType_pagination) b)
       = filter (\<lambda>x. property x \<noteq> pname) (paginationParams b)
   \<and> query (remove pname t b) = joined_query (remove pname t b)
   \<and> history (remove pname t b) = history b"
proof -
  have h: "history (remove pname t b) = history b"
    by (simp add: remove_def Let_def history_def priv_buildQuery_fields
        split: option.split SpdrParamType.split)
  show ?thesis
    by (simp add: query_after_remove h)
      (simp add: remove_def params_def sortParams_def paginationParams_def keep_def
        priv_buildQuery_fields)
qed

text \<open>
  C8. \<open>previousQuery\<close> is the most recently appended entry of \<open>history\<close>, and no value
  when \<open>history\<close> is empty; after a \<open>clear\<close> it is the entry that clear appended.
\<close>

theorem previousQuery_most_recent:
  "previousQuery b = (if history b = [] then None else Some (last (history b)))
   \<and> previousQuery (clear t b) = Some (query b)"
proof -
  have last_entry:
    "previousQuery c = (if history c = [] then None else Some (last (history c)))" for c
  proof (cases "priv_history c = []")
    case True
    then show ?thesis by (simp add: previousQuery_def history_def)
  next
    case False
    then have "0 < length (priv_history c)" by simp
    then have "nat (int (length (priv_history c)) - 1) = length (priv_history c) - 1"
      by simp
    with False show ?thesis
      by (simp add: previousQuery_def history_def Let_def last_conv_nth)
  qed
  have "history (clear t b) = history b @ [query b]"
    by (simp add: clear_def Let_def history_def query_def priv_buildQuery_fields
        split: option.split SpdrParamType.split)
  then have "previousQuery (clear t b) = Some (query b)"
    by (simp add: last_entry)
  with last_entry [of b] show ?thesis by simp
qed

text \<open>
  C9. A Search parameter built from an empty list of values has the empty token, for
  every property and operand; appending it adds the operand alone to the accumulator,
  and \<open>search\<close> with no values rebuilds to an accumulator with a bare operand after
  the filters already held.
\<close>

theorem search_without_vals:
  "pquery (SpdrSearch pname [] opnd) = []
   \<and> priv_query (priv_append (SpdrSearch pname [] opnd) None b) = priv_query b @ priv_operand b
   \<and> priv_query (search pname [] oopt b) =
       concat (map (\<lambda>param. priv_operand b @ pquery param) (priv_params b))
       @ priv_operand b
       @ concat (map (\<lambda>param. priv_operand b @ pquery param)
           (priv_sortParams b @ priv_paginationParams b))"
  by (simp add: SpdrSearch_def priv_append_def search_def priv_addParam_def
      priv_buildQuery_eq)

text \<open>
  C10. \<open>remove(property, category)\<close> called twice in a row leaves the builder in the
  state one call leaves it in: the same sequences, accumulator, operand and history.
\<close>

theorem remove_twice:
  "remove pname t (remove pname t b) = remove pname t b"
proof (cases t)
  case None
  then show ?thesis by (simp add: remove_def priv_buildQuery_eq keep_def)
next
  case (Some c)
  then show ?thesis by (cases c) (simp_all add: remove_def priv_buildQuery_eq keep_def)
qed

end
